theory Spec2Isabelle
  imports Main
begin

section \<open>The option type of package opt\<close>

text \<open>
  The Go struct \<^verbatim>\<open>type T[V any] struct { v V; present bool }\<close> is a record with
  the same two fields. Go compares two structs with \<^verbatim>\<open>==\<close> field by field, which
  is the equality of HOL on records.

  Go gives every type a zero value. A generic function of the package obtains the zero
  value of \<open>V\<close> from the type argument alone; here it is passed as the argument
  \<open>zero\<close>.
\<close>

record 'v T =
  v :: 'v
  present :: bool

text \<open>
  A run-time panic is a value of its own, so that a function that may panic returns
  \<open>panic + 'a\<close> with \<open>Inl\<close> for the panic.
\<close>

datatype panic = Panic string

text \<open>
  \<^verbatim>\<open>var t T[V]\<close> and the composite literal \<^verbatim>\<open>T[V]{}\<close>: every field holds the zero
  value of its type, which is \<open>false\<close> for the field of type bool.
\<close>

definition zero_T :: "'v \<Rightarrow> 'v T" where
  "zero_T zero = \<lparr>v = zero, present = False\<rparr>"

definition IsZero :: "'v T \<Rightarrow> bool" where
  "IsZero t = (\<not> present t)"

definition IsEmpty :: "'v T \<Rightarrow> bool" where
  "IsEmpty t = (\<not> present t)"

definition IsPresent :: "'v T \<Rightarrow> bool" where
  "IsPresent t = present t"

text \<open>\<^verbatim>\<open>None[V]()\<close> returns \<^verbatim>\<open>T[V]{}\<close>.\<close>

definition None_T :: "'v \<Rightarrow> 'v T" where
  "None_T zero = zero_T zero"

definition Some_T :: "'v \<Rightarrow> 'v T" where
  "Some_T val = \<lparr>v = val, present = True\<rparr>"

definition Unwrap :: "'v T \<Rightarrow> 'v \<times> bool" where
  "Unwrap t = (v t, present t)"

text \<open>
  A pointer \<^verbatim>\<open>*V\<close> is read only for being nil and for the value it points to, so it
  is modelled as \<open>'v option\<close>: \<open>None\<close> is the nil pointer, \<open>Some a\<close> a pointer to
  a variable holding \<open>a\<close>.
\<close>

definition FromNillable :: "'v \<Rightarrow> 'v option \<Rightarrow> 'v T" where
  "FromNillable zero p = (case p of None \<Rightarrow> None_T zero | Some a \<Rightarrow> Some_T a)"

definition ToNillable :: "'v T \<Rightarrow> 'v option" where
  "ToNillable t = (case Unwrap t of (a, p) \<Rightarrow> if \<not> p then None else Some a)"

definition Must :: "'v T \<Rightarrow> panic + 'v" where
  "Must t =
     (case Unwrap t of (a, p) \<Rightarrow>
        if \<not> p then Inl (Panic ''called Must() on an empty opt.T'') else Inr a)"

definition OrElse :: "'v T \<Rightarrow> 'v \<Rightarrow> 'v" where
  "OrElse t defaultValue = (case Unwrap t of (a, p) \<Rightarrow> if \<not> p then defaultValue else a)"

definition OrZero :: "'v T \<Rightarrow> 'v" where
  "OrZero t = (case Unwrap t of (a, _) \<Rightarrow> a)"

section \<open>Zeroness\<close>

text \<open>The kinds of package \<open>reflect\<close>, in its order (\<open>Int_kind\<close> is \<^verbatim>\<open>reflect.Int\<close>).\<close>

datatype Kind =
    Invalid | Bool | Int_kind | Int8 | Int16 | Int32 | Int64
  | Uint | Uint8 | Uint16 | Uint32 | Uint64 | Uintptr
  | Float32 | Float64 | Complex64 | Complex128
  | Array | Chan | Func | Interface | Map | Pointer | Slice | String | Struct
  | UnsafePointer

text \<open>
  \<open>isZero\<close> looks at its argument through package \<open>reflect\<close> only. What
  \<open>reflect\<close> reports of the type argument \<open>V\<close> and of a value of \<open>V\<close> is a
  record of the model:
  \<^item> \<open>Implements_isZeroer\<close>: \<^verbatim>\<open>reflect.TypeFor[V]().Implements(reflect.TypeFor[isZeroer]())\<close>,
    whether the method set of \<open>V\<close> has \<^verbatim>\<open>IsZero() bool\<close>;
  \<^item> \<open>Kind_of a\<close>: \<^verbatim>\<open>reflect.ValueOf(a).Kind()\<close>. \<^verbatim>\<open>ValueOf\<close> takes its argument as
    \<^verbatim>\<open>any\<close>: for a nil interface value (\<open>V\<close> an interface type such as \<^verbatim>\<open>error\<close>) it
    returns the zero \<^verbatim>\<open>reflect.Value\<close>, whose kind is \<open>Invalid\<close>;
  \<^item> \<open>IsNil_of a\<close>: \<^verbatim>\<open>rv.IsNil()\<close>, read only for the kinds that have a nil;
  \<^item> \<open>call_IsZero a\<close>: the verdict of the value's own \<open>IsZero\<close> method;
  \<^item> \<open>all_zero a\<close>: for a value of a kind without nil, whether it is the zero value of
    its type (false, 0, the empty string, every element or field zero).
\<close>

record 'v reflection =
  Implements_isZeroer :: bool
  Kind_of :: "'v \<Rightarrow> Kind"
  IsNil_of :: "'v \<Rightarrow> bool"
  call_IsZero :: "'v \<Rightarrow> bool"
  all_zero :: "'v \<Rightarrow> bool"

text \<open>
  \<^verbatim>\<open>rv.Interface()\<close> panics on the zero \<^verbatim>\<open>reflect.Value\<close>; otherwise it returns the
  value, and the assertion to \<open>isZeroer\<close> holds since \<open>V\<close> implements it.
\<close>

definition Value_Interface :: "'v reflection \<Rightarrow> 'v \<Rightarrow> panic + 'v" where
  "Value_Interface r a =
     (if Kind_of r a = Invalid
      then Inl (Panic ''reflect: call of reflect.Value.Interface on zero Value'')
      else Inr a)"

text \<open>
  \<^verbatim>\<open>rv.IsZero()\<close> switches on the kind: the kinds that have a nil answer \<open>IsNil\<close>,
  the other valid kinds compare the contents with zero, and the default branch, taken
  by \<open>Invalid\<close>, panics.
\<close>

definition has_nil :: "Kind \<Rightarrow> bool" where
  "has_nil k = (k \<in> {Chan, Func, Interface, Map, Pointer, Slice, UnsafePointer})"

definition Value_IsZero :: "'v reflection \<Rightarrow> 'v \<Rightarrow> panic + bool" where
  "Value_IsZero r a =
     (if Kind_of r a = Invalid
      then Inl (Panic ''reflect: call of reflect.Value.IsZero on zero Value'')
      else if has_nil (Kind_of r a) then Inr (IsNil_of r a)
      else Inr (all_zero r a))"

definition isZero :: "'v reflection \<Rightarrow> 'v \<Rightarrow> panic + bool" where
  "isZero r a =
     (if Implements_isZeroer r then
        (if Kind_of r a = Pointer \<and> IsNil_of r a then Inr True
         else (case Value_Interface r a of
                 Inl p \<Rightarrow> Inl p
               | Inr i \<Rightarrow> Inr (call_IsZero r i)))
      else Value_IsZero r a)"

definition FromZeroable :: "'v reflection \<Rightarrow> 'v \<Rightarrow> 'v \<Rightarrow> panic + 'v T" where
  "FromZeroable r zero a =
     (case isZero r a of
        Inl p \<Rightarrow> Inl p
      | Inr z \<Rightarrow> Inr (if z then None_T zero else Some_T a))"

text \<open>
  The zeroness test in the words of the specification, to compare \<open>isZero\<close> with: a
  nil reference is zero; otherwise the type's own \<open>IsZero\<close> method decides where
  \<open>V\<close> has one; otherwise the value is compared with the zero value of its type. A nil
  pointer and a nil interface value are the nil references a method cannot be invoked
  through.
\<close>

definition nil_reference :: "'v reflection \<Rightarrow> 'v \<Rightarrow> bool" where
  "nil_reference r a = (Kind_of r a = Invalid \<or> (Kind_of r a = Pointer \<and> IsNil_of r a))"

definition zero_by_spec :: "'v reflection \<Rightarrow> 'v \<Rightarrow> bool" where
  "zero_by_spec r a =
     (if nil_reference r a then True
      else if Implements_isZeroer r then call_IsZero r a
      else if has_nil (Kind_of r a) then IsNil_of r a
      else all_zero r a)"

text \<open>
  The reflection of the interface type \<^verbatim>\<open>error\<close> (the package names \<^verbatim>\<open>T[error]\<close>
  \<open>Error\<close>). An error value is \<open>None\<close>, the nil interface value, or \<open>Some msg\<close>,
  the non-nil pointer that \<^verbatim>\<open>errors.New(msg)\<close> returns. \<^verbatim>\<open>error\<close> has the one method
  \<open>Error\<close>, so it does not implement \<open>isZeroer\<close>.
\<close>

definition reflect_error :: "string option reflection" where
  "reflect_error =
     \<lparr>Implements_isZeroer = False,
      Kind_of = (\<lambda>e. case e of None \<Rightarrow> Invalid | Some _ \<Rightarrow> Pointer),
      IsNil_of = (\<lambda>e. False),
      call_IsZero = (\<lambda>e. False),
      all_zero = (\<lambda>e. False)\<rparr>"

text \<open>
  The reflection of \<^verbatim>\<open>int\<close>: kind \<open>Int_kind\<close>, no nil, no \<open>IsZero\<close> method, zero
  when it equals 0.
\<close>

definition reflect_int :: "int reflection" where
  "reflect_int =
     \<lparr>Implements_isZeroer = False,
      Kind_of = (\<lambda>n. Int_kind),
      IsNil_of = (\<lambda>n. False),
      call_IsZero = (\<lambda>n. False),
      all_zero = (\<lambda>n. n = 0)\<rparr>"

text \<open>
  The values of the package's own examples: a \<^verbatim>\<open>time.Time\<close> is read for its instant
  (seconds and nanoseconds since the year 1) and its location (\<open>None\<close> for the nil
  location, UTC). Its method \<open>IsZero\<close> looks at the instant only, so \<^verbatim>\<open>time.Time\<close>
  implements \<open>isZeroer\<close>; the struct is the zero value when the location is nil as well.
\<close>

record Time =
  sec :: int
  nsec :: int
  loc :: "string option"

definition Time_IsZero :: "Time \<Rightarrow> bool" where
  "Time_IsZero t = (sec t = 0 \<and> nsec t = 0)"

definition reflect_Time :: "Time reflection" where
  "reflect_Time =
     \<lparr>Implements_isZeroer = True,
      Kind_of = (\<lambda>t. Struct),
      IsNil_of = (\<lambda>t. False),
      call_IsZero = Time_IsZero,
      all_zero = (\<lambda>t. sec t = 0 \<and> nsec t = 0 \<and> loc t = None)\<rparr>"

text \<open>
  The pointer type \<^verbatim>\<open>*time.Time\<close> has the method too. The method is invoked on the
  value pointed to; through the nil pointer it cannot be invoked, and \<open>isZero\<close> does
  not get there.
\<close>

definition reflect_ptr_Time :: "Time option reflection" where
  "reflect_ptr_Time =
     \<lparr>Implements_isZeroer = True,
      Kind_of = (\<lambda>p. Pointer),
      IsNil_of = (\<lambda>p. p = None),
      call_IsZero = (\<lambda>p. case p of None \<Rightarrow> False | Some t \<Rightarrow> Time_IsZero t),
      all_zero = (\<lambda>p. False)\<rparr>"

section \<open>JSON\<close>

text \<open>
  \<open>encoding/json\<close> is not part of the package. \<open>MarshalJSON\<close> and
  \<open>UnmarshalJSON\<close> take the two calls they make as arguments:
  \<open>json_Marshal a\<close> is \<^verbatim>\<open>json.Marshal(t.v)\<close>, the bytes or an error, and
  \<open>json_Unmarshal data dest\<close> is \<^verbatim>\<open>json.Unmarshal(data, &t.v)\<close> with \<open>dest\<close>
  the payload before the call: it returns the payload after the call and the error, if
  any (a failing decoder may have written to the payload already). A byte slice is a
  \<open>string\<close>. The receiver of \<open>UnmarshalJSON\<close> is a pointer: the option before the
  call is an argument, the option after it a result.
\<close>

definition MarshalJSON :: "('v \<Rightarrow> 'e + string) \<Rightarrow> 'v T \<Rightarrow> 'e + string" where
  "MarshalJSON json_Marshal t =
     (if \<not> present t then Inr ''null'' else json_Marshal (v t))"

definition UnmarshalJSON ::
  "(string \<Rightarrow> 'v \<Rightarrow> 'v \<times> 'e option) \<Rightarrow> 'v T \<Rightarrow> string \<Rightarrow> 'v T \<times> 'e option" where
  "UnmarshalJSON json_Unmarshal t data =
     (if data = ''null'' then (t\<lparr>present := False\<rparr>, None)
      else (case json_Unmarshal data (v t) of
              (dest, Some err) \<Rightarrow> (t\<lparr>v := dest\<rparr>, Some err)
            | (dest, None) \<Rightarrow> (t\<lparr>v := dest, present := True\<rparr>, None)))"

section \<open>SQL\<close>

text \<open>
  \<^verbatim>\<open>sql.Null[V]\<close> of \<open>database/sql\<close> is a struct of a value and a validity flag.
\<close>

record 'v Null =
  V :: 'v
  Valid :: bool

text \<open>
  \<open>Scan\<close> declares a zero \<^verbatim>\<open>sql.Null[V]\<close>, calls its \<open>Scan\<close> method (the
  argument \<open>null_Scan\<close>: the struct before the call and the source value give the
  struct after the call and the error), and copies both fields into the receiver
  whether or not there was an error.
\<close>

definition Scan ::
  "('v Null \<Rightarrow> 'src \<Rightarrow> 'v Null \<times> 'e option) \<Rightarrow> 'v \<Rightarrow> 'v T \<Rightarrow> 'src \<Rightarrow> 'v T \<times> 'e option" where
  "Scan null_Scan zero t src =
     (case null_Scan \<lparr>V = zero, Valid = False\<rparr> src of
        (null, err) \<Rightarrow> (t\<lparr>v := V null, present := Valid null\<rparr>, err))"

text \<open>
  The \<open>Scan\<close> method of \<^verbatim>\<open>sql.Null[T]\<close> as \<open>database/sql\<close> defines it: a nil source
  (a NULL column) stores the zero value and clears \<open>Valid\<close>; any other source sets
  \<open>Valid\<close> and then converts the source into the value with \<open>convertAssign\<close>,
  whose error it returns. The source \<^verbatim>\<open>any\<close> is an \<open>option\<close>, \<open>None\<close> for nil;
  \<open>convertAssign dest x\<close> returns the destination after the call and the error.
\<close>

definition Null_Scan ::
  "('v \<Rightarrow> 'src \<Rightarrow> 'v \<times> 'e option) \<Rightarrow> 'v \<Rightarrow> 'v Null \<Rightarrow> 'src option \<Rightarrow> 'v Null \<times> 'e option" where
  "Null_Scan convertAssign zero n value =
     (case value of
        None \<Rightarrow> (n\<lparr>V := zero, Valid := False\<rparr>, None)
      | Some x \<Rightarrow>
          (case convertAssign (V n) x of
             (dest, err) \<Rightarrow> (n\<lparr>V := dest, Valid := True\<rparr>, err)))"

text \<open>
  A conversion for the examples: \<open>convertAssign\<close> of \<open>database/sql\<close> into a
  \<^verbatim>\<open>*bool\<close> from an integer source accepts 1 and 0 and leaves the destination as it
  was on any other integer, which it reports.
\<close>

definition convertAssign_bool :: "bool \<Rightarrow> int \<Rightarrow> bool \<times> string option" where
  "convertAssign_bool dest x =
     (if x = 1 then (True, None)
      else if x = 0 then (False, None)
      else (dest, Some ''sql/driver: could not convert into type bool''))"

section \<open>Codecs for the examples\<close>

text \<open>
  Two instances of the calls to \<open>encoding/json\<close>, on the tokens they are used at.
  For \<^verbatim>\<open>bool\<close>: the encoder writes \<^verbatim>\<open>true\<close> or \<^verbatim>\<open>false\<close>; the decoder reads
  these two, leaves the destination alone on \<^verbatim>\<open>null\<close>, as \<open>encoding/json\<close> does for
  a type without nil, and reports anything else.
\<close>

datatype json_error = UnmarshalError

definition json_Marshal_bool :: "bool \<Rightarrow> json_error + string" where
  "json_Marshal_bool b = Inr (if b then ''true'' else ''false'')"

definition json_Unmarshal_bool :: "string \<Rightarrow> bool \<Rightarrow> bool \<times> json_error option" where
  "json_Unmarshal_bool data dest =
     (if data = ''true'' then (True, None)
      else if data = ''false'' then (False, None)
      else if data = ''null'' then (dest, None)
      else (dest, Some UnmarshalError))"

text \<open>
  For the pointer type \<^verbatim>\<open>*bool\<close>, a \<open>bool option\<close> as in \<open>FromNillable\<close>: the
  encoder writes \<^verbatim>\<open>null\<close> for the nil pointer and the encoding of the value pointed
  to otherwise; the decoder sets the pointer to nil on \<^verbatim>\<open>null\<close> and otherwise decodes
  into the variable pointed to, a new one if the pointer was nil.
\<close>

definition json_Marshal_ptr_bool :: "bool option \<Rightarrow> json_error + string" where
  "json_Marshal_ptr_bool p = (case p of None \<Rightarrow> Inr ''null'' | Some b \<Rightarrow> json_Marshal_bool b)"

definition json_Unmarshal_ptr_bool ::
  "string \<Rightarrow> bool option \<Rightarrow> bool option \<times> json_error option" where
  "json_Unmarshal_ptr_bool data dest =
     (if data = ''null'' then (None, None)
      else (case json_Unmarshal_bool data (case dest of None \<Rightarrow> False | Some b \<Rightarrow> b) of
              (b, err) \<Rightarrow> (Some b, err)))"

section \<open>The aliases\<close>

text \<open>
  The predeclared types that the alias block of the package mentions. In Go
  \<^verbatim>\<open>byte\<close> is another name of \<^verbatim>\<open>uint8\<close> and \<^verbatim>\<open>rune\<close> of \<^verbatim>\<open>int32\<close>.
\<close>

datatype go_type =
    go_bool | go_complex64 | go_complex128 | go_error | go_float32 | go_float64
  | go_int8 | go_int16 | go_int32 | go_int64 | go_string
  | go_uint8 | go_uint16 | go_uint32 | go_uint64

definition go_byte :: go_type where
  "go_byte = go_uint8"

definition go_rune :: go_type where
  "go_rune = go_int32"

text \<open>
  The alias block, in its order: the pair \<open>(A, V)\<close> is the declaration
  \<^verbatim>\<open>A = T[V]\<close>.
\<close>

definition aliases :: "(string \<times> go_type) list" where
  "aliases =
     [(''Bool'', go_bool),
      (''Complex128'', go_complex64),
      (''Complex64'', go_complex128),
      (''Byte'', go_byte),
      (''Error'', go_error),
      (''Float32'', go_float32),
      (''Float64'', go_float64),
      (''Int8'', go_uint8),
      (''Int16'', go_uint16),
      (''Int32'', go_uint32),
      (''Int64'', go_uint64),
      (''Rune'', go_rune),
      (''String'', go_string),
      (''Uint8'', go_uint8),
      (''Uint16'', go_uint16),
      (''Uint32'', go_uint32),
      (''Uint64'', go_uint64)]"

text \<open>
  The type an alias is named after, in the words of the specification: the predeclared
  type whose name is the alias's name with a small initial.
\<close>

definition predeclared :: "(string \<times> go_type) list" where
  "predeclared =
     [(''bool'', go_bool), (''byte'', go_byte),
      (''complex64'', go_complex64), (''complex128'', go_complex128),
      (''error'', go_error),
      (''float32'', go_float32), (''float64'', go_float64),
      (''int8'', go_int8), (''int16'', go_int16), (''int32'', go_int32), (''int64'', go_int64),
      (''rune'', go_rune), (''string'', go_string),
      (''uint8'', go_uint8), (''uint16'', go_uint16), (''uint32'', go_uint32),
      (''uint64'', go_uint64)]"

definition small_initial :: "string \<Rightarrow> string" where
  "small_initial s =
     (case s of
        [] \<Rightarrow> []
      | c # cs \<Rightarrow>
          (if 65 \<le> (of_char c :: nat) \<and> (of_char c :: nat) \<le> 90
           then char_of (of_char c + 32 :: nat) # cs
           else c # cs))"

definition named_after :: "string \<Rightarrow> go_type option" where
  "named_after a = map_of predeclared (small_initial a)"

definition misnamed :: "string list" where
  "misnamed = map fst (filter (\<lambda>(a, t). named_after a \<noteq> Some t) aliases)"

text \<open>The integers a sized integer type holds.\<close>

definition holds :: "go_type \<Rightarrow> int \<Rightarrow> bool" where
  "holds t n =
     (case t of
        go_int8 \<Rightarrow> - (2 ^ 7) \<le> n \<and> n < 2 ^ 7
      | go_int16 \<Rightarrow> - (2 ^ 15) \<le> n \<and> n < 2 ^ 15
      | go_int32 \<Rightarrow> - (2 ^ 31) \<le> n \<and> n < 2 ^ 31
      | go_int64 \<Rightarrow> - (2 ^ 63) \<le> n \<and> n < 2 ^ 63
      | go_uint8 \<Rightarrow> 0 \<le> n \<and> n < 2 ^ 8
      | go_uint16 \<Rightarrow> 0 \<le> n \<and> n < 2 ^ 16
      | go_uint32 \<Rightarrow> 0 \<le> n \<and> n < 2 ^ 32
      | go_uint64 \<Rightarrow> 0 \<le> n \<and> n < 2 ^ 64
      | _ \<Rightarrow> False)"

section \<open>Equality and the payload of an absent option\<close>

text \<open>
  The specification's invariant I1: an option that is not present holds the zero value
  of \<open>V\<close>.
\<close>

definition I1 :: "'v \<Rightarrow> 'v T \<Rightarrow> bool" where
  "I1 zero t = (present t \<or> v t = zero)"

text \<open>
  The specification's equality of options (I2): both are absent, or both are present
  and wrap equal values.
\<close>

definition equal_as_options :: "'v T \<Rightarrow> 'v T \<Rightarrow> bool" where
  "equal_as_options a b =
     ((\<not> present a \<and> \<not> present b) \<or> (present a \<and> present b \<and> v a = v b))"

text \<open>
  A value type is JSON-serializable when whatever the encoder writes for a value, the
  decoder reads back as that value into a zero destination, without an error.
\<close>

definition json_serializable ::
  "('v \<Rightarrow> 'e + string) \<Rightarrow> (string \<Rightarrow> 'v \<Rightarrow> 'v \<times> 'e option) \<Rightarrow> 'v \<Rightarrow> bool" where
  "json_serializable json_Marshal json_Unmarshal zero =
     (\<forall>a data. json_Marshal a = Inr data \<longrightarrow> json_Unmarshal data zero = (a, None))"

section \<open>Inspection\<close>

text \<open>
  Claim C4. \<open>IsZero\<close> answers exactly as the absence check \<open>IsEmpty\<close> does, it is
  true exactly when the option is not present, and a present option is never zero, also
  when it wraps the zero value of \<open>V\<close> (any value at all).
\<close>

theorem IsZero_is_absence:
  "IsZero t = IsEmpty t \<and> IsZero t = (\<not> IsPresent t) \<and> IsZero t = (\<not> present t)
   \<and> \<not> IsZero (Some_T a) \<and> IsZero (None_T zero)"
  by (simp add: IsZero_def IsEmpty_def IsPresent_def Some_T_def None_T_def zero_T_def)

text \<open>
  Claim C8. \<open>Must\<close> on an option that is not present panics, so it does not return
  a value; on a present option it returns the wrapped value. \<open>Must\<close> has a value
  receiver and assigns to nothing: it is a function of its receiver alone, and the
  result holds nothing but the panic or the value.
\<close>

theorem Must_panics_iff_absent:
  "Must t = (if present t then Inr (v t) else Inl (Panic ''called Must() on an empty opt.T''))
   \<and> Must (Some_T a) = Inr a
   \<and> Must (None_T zero) = Inl (Panic ''called Must() on an empty opt.T'')
   \<and> (\<exists>p. Must t = Inl p) = (\<not> present t)"
  by (auto simp add: Must_def Unwrap_def Some_T_def None_T_def zero_T_def)

text \<open>
  Claim C10. The zero value of the wrapper type is the absent option: it equals
  \<open>None_T\<close>, it is not present (and so is empty and zero), its payload is the zero
  value of \<open>V\<close>, and the accessors treat it as absent.
\<close>

theorem zero_T_is_None:
  "zero_T zero = None_T zero \<and> \<not> IsPresent (zero_T zero) \<and> IsEmpty (zero_T zero)
   \<and> IsZero (zero_T zero) \<and> v (zero_T zero) = zero
   \<and> Unwrap (zero_T zero) = (zero, False) \<and> OrZero (zero_T zero) = zero
   \<and> OrElse (zero_T zero) d = d \<and> ToNillable (zero_T zero) = None"
  by (simp add: None_T_def zero_T_def IsPresent_def IsEmpty_def IsZero_def Unwrap_def
      OrZero_def OrElse_def ToNillable_def)

section \<open>The payload of an absent option\<close>

text \<open>
  The constructors, the conversions and \<open>Scan\<close> establish I1 whatever the receiver
  was, and so does a successful \<open>UnmarshalJSON\<close> of anything but \<^verbatim>\<open>null\<close>.
\<close>

lemma I1_None_T: "I1 zero (None_T zero)"
  by (simp add: I1_def None_T_def zero_T_def)

lemma I1_Some_T: "I1 zero (Some_T a)"
  by (simp add: I1_def Some_T_def)

lemma I1_FromNillable: "I1 zero (FromNillable zero p)"
  by (cases p) (simp_all add: FromNillable_def I1_None_T I1_Some_T)

lemma I1_FromZeroable: "FromZeroable r zero a = Inr t \<Longrightarrow> I1 zero t"
  by (auto simp add: FromZeroable_def I1_None_T I1_Some_T split: sum.splits if_splits)

lemma I1_Scan: "I1 zero (fst (Scan (Null_Scan convertAssign zero) zero t src))"
  by (cases src) (simp_all add: Scan_def Null_Scan_def I1_def split: prod.splits)

lemma I1_UnmarshalJSON:
  "data \<noteq> ''null'' \<Longrightarrow> UnmarshalJSON json_Unmarshal t data = (t', None) \<Longrightarrow> I1 zero t'"
  by (auto simp add: UnmarshalJSON_def I1_def split: prod.splits option.splits)

text \<open>
  Claim C1: an option that is not present holds the zero value of \<open>V\<close>, and
  \<open>UnmarshalJSON\<close> of \<^verbatim>\<open>null\<close> leaves the payload at the zero value. The code
  does not keep this. On \<^verbatim>\<open>null\<close> \<open>UnmarshalJSON\<close> clears the discriminant and
  returns before it touches the payload, so the receiver \<^verbatim>\<open>Some(5)\<close> becomes an
  option that is not present and still holds 5, whatever the decoder is. \<open>OrZero\<close>,
  documented to return the zero value of an empty option, returns 5 for it. \<open>Scan\<close>
  of a NULL column into the same receiver does reset the payload.
\<close>

theorem UnmarshalJSON_null_keeps_payload:
  "UnmarshalJSON json_Unmarshal (Some_T (5::int)) ''null'' = (\<lparr>v = 5, present = False\<rparr>, None)
   \<and> \<not> I1 0 (fst (UnmarshalJSON json_Unmarshal (Some_T (5::int)) ''null''))
   \<and> OrZero (fst (UnmarshalJSON json_Unmarshal (Some_T (5::int)) ''null'')) = 5
   \<and> Scan (Null_Scan convertAssign 0) 0 (Some_T (5::int)) None = (None_T 0, None)"
  by (simp add: UnmarshalJSON_def Some_T_def I1_def OrZero_def Unwrap_def Scan_def
      Null_Scan_def None_T_def zero_T_def)

section \<open>Equality\<close>

text \<open>
  On options that satisfy I1, the equality of the structs is the equality of options
  of the specification.
\<close>

lemma equality_under_I1:
  "I1 zero a \<Longrightarrow> I1 zero b \<Longrightarrow> (a = b) = equal_as_options a b"
  by (cases a, cases b) (auto simp add: I1_def equal_as_options_def)

text \<open>
  Claim C5: \<^verbatim>\<open>a == b\<close> holds exactly when both options are absent, or both are
  present and wrap equal values. The code compares the structs field by field, the
  payload of an absent option included: the option that \<open>UnmarshalJSON\<close> of
  \<^verbatim>\<open>null\<close> makes of \<^verbatim>\<open>Some(5)\<close> and \<^verbatim>\<open>None[int]()\<close> are both absent, and they
  are not equal.
\<close>

theorem equality_fails_on_kept_payload:
  "equal_as_options (fst (UnmarshalJSON json_Unmarshal (Some_T (5::int)) ''null'')) (None_T 0)
   \<and> fst (UnmarshalJSON json_Unmarshal (Some_T (5::int)) ''null'') \<noteq> None_T 0"
  by (simp add: UnmarshalJSON_def Some_T_def equal_as_options_def None_T_def zero_T_def)

section \<open>Pointers\<close>

text \<open>
  Claim C3. Converting an option to a pointer and back gives the option itself when
  it is present and \<open>None_T\<close> when it is not. The result equals the option as an
  option for every option, and it is the same struct for every option that satisfies
  I1.
\<close>

theorem FromNillable_ToNillable:
  "FromNillable zero (ToNillable x) = (if present x then x else None_T zero)
   \<and> equal_as_options (FromNillable zero (ToNillable x)) x
   \<and> (I1 zero x \<longrightarrow> FromNillable zero (ToNillable x) = x)"
  by (cases x)
    (auto simp add: FromNillable_def ToNillable_def Unwrap_def Some_T_def None_T_def zero_T_def
      equal_as_options_def I1_def)

text \<open>The round trip of \<^verbatim>\<open>Some(5)\<close> and of \<^verbatim>\<open>None[int]()\<close>.\<close>

theorem FromNillable_ToNillable_witness:
  "I1 (0::int) (Some_T 5) \<and> FromNillable 0 (ToNillable (Some_T 5)) = Some_T (5::int)
   \<and> I1 (0::int) (None_T 0) \<and> FromNillable 0 (ToNillable (None_T 0)) = None_T (0::int)"
proof -
  have some: "I1 (0::int) (Some_T 5)" by (rule I1_Some_T)
  have none: "I1 (0::int) (None_T 0)" by (rule I1_None_T)
  from FromNillable_ToNillable [of "0::int" "Some_T 5"] some
  have a: "FromNillable 0 (ToNillable (Some_T 5)) = Some_T (5::int)" by blast
  from FromNillable_ToNillable [of "0::int" "None_T 0"] none
  have b: "FromNillable 0 (ToNillable (None_T 0)) = None_T (0::int)" by blast
  from some none a b show ?thesis by blast
qed

section \<open>The JSON round trip\<close>

lemma json_serializable_bool: "json_serializable json_Marshal_bool json_Unmarshal_bool False"
  by (auto simp add: json_serializable_def json_Marshal_bool_def json_Unmarshal_bool_def)

lemma json_serializable_ptr_bool:
  "json_serializable json_Marshal_ptr_bool json_Unmarshal_ptr_bool None"
  by (auto simp add: json_serializable_def json_Marshal_ptr_bool_def json_Unmarshal_ptr_bool_def
      json_Marshal_bool_def json_Unmarshal_bool_def split: option.splits)

text \<open>
  Claim C2, as amended. \<open>MarshalJSON\<close> writes \<^verbatim>\<open>null\<close> for an absent option and
  the encoding of the wrapped value for a present one. For a JSON-serializable \<open>V\<close>,
  \<open>UnmarshalJSON\<close> into a zero option of what \<open>MarshalJSON\<close> wrote for \<open>x\<close>
  gives \<open>x\<close> back, without an error, when \<open>x\<close> is \<open>None_T\<close> or when \<open>x\<close> is
  present and what was written is not \<^verbatim>\<open>null\<close>.
\<close>

theorem json_roundtrip:
  assumes "json_serializable json_Marshal json_Unmarshal zero"
    and "MarshalJSON json_Marshal x = Inr data"
    and "x = None_T zero \<or> (present x \<and> data \<noteq> ''null'')"
  shows "MarshalJSON json_Marshal x = (if present x then json_Marshal (v x) else Inr ''null'')
    \<and> UnmarshalJSON json_Unmarshal (None_T zero) data = (x, None)"
proof -
  have enc: "MarshalJSON json_Marshal x = (if present x then json_Marshal (v x) else Inr ''null'')"
    by (simp add: MarshalJSON_def)
  from assms(3) have "UnmarshalJSON json_Unmarshal (None_T zero) data = (x, None)"
  proof
    assume absent: "x = None_T zero"
    with assms(2) have "data = ''null''"
      by (simp add: MarshalJSON_def None_T_def zero_T_def)
    with absent show ?thesis
      by (simp add: UnmarshalJSON_def None_T_def zero_T_def)
  next
    assume pres: "present x \<and> data \<noteq> ''null''"
    with assms(2) have "json_Marshal (v x) = Inr data"
      by (simp add: MarshalJSON_def)
    with assms(1) have "json_Unmarshal data zero = (v x, None)"
      by (simp add: json_serializable_def)
    with pres show ?thesis
      by (cases x) (simp add: UnmarshalJSON_def None_T_def zero_T_def)
  qed
  with enc show ?thesis by simp
qed

text \<open>The round trip of \<^verbatim>\<open>Some(true)\<close> through the token \<^verbatim>\<open>true\<close>.\<close>

theorem json_roundtrip_witness:
  "json_serializable json_Marshal_bool json_Unmarshal_bool False
   \<and> MarshalJSON json_Marshal_bool (Some_T True) = Inr ''true''
   \<and> present (Some_T True) \<and> ''true'' \<noteq> ''null''
   \<and> UnmarshalJSON json_Unmarshal_bool (None_T False) ''true'' = (Some_T True, None)"
proof -
  have enc: "MarshalJSON json_Marshal_bool (Some_T True) = Inr ''true''"
    by (simp add: MarshalJSON_def json_Marshal_bool_def Some_T_def)
  have pres: "Some_T True = None_T False \<or> (present (Some_T True) \<and> ''true'' \<noteq> ''null'')"
    by (simp add: Some_T_def)
  from json_roundtrip [OF json_serializable_bool enc pres] enc json_serializable_bool
  show ?thesis by (simp add: Some_T_def)
qed

text \<open>
  The claim as stated fails for a value type with a nil: \<^verbatim>\<open>*bool\<close> is
  JSON-serializable, the present option that wraps the nil pointer is written as
  \<^verbatim>\<open>null\<close>, and \<^verbatim>\<open>null\<close> is read back as the absent option.
\<close>

theorem json_roundtrip_counterexample:
  "json_serializable json_Marshal_ptr_bool json_Unmarshal_ptr_bool None
   \<and> MarshalJSON json_Marshal_ptr_bool (Some_T None) = Inr ''null''
   \<and> UnmarshalJSON json_Unmarshal_ptr_bool (None_T None) ''null'' = (None_T None, None)
   \<and> None_T None \<noteq> Some_T (None :: bool option)"
  by (simp add: json_serializable_ptr_bool MarshalJSON_def UnmarshalJSON_def
      json_Marshal_ptr_bool_def Some_T_def None_T_def zero_T_def)

section \<open>Zero values\<close>

text \<open>
  On every value that \<open>reflect\<close> sees as valid, \<open>FromZeroable\<close> returns, and it
  decides as the specification says. On a nil interface value it panics.
\<close>

lemma FromZeroable_valid:
  "Kind_of r a \<noteq> Invalid \<Longrightarrow>
   FromZeroable r zero a = Inr (if zero_by_spec r a then None_T zero else Some_T a)"
  by (auto simp add: FromZeroable_def isZero_def Value_Interface_def Value_IsZero_def
      zero_by_spec_def nil_reference_def has_nil_def)

lemma FromZeroable_Invalid:
  "Kind_of r a = Invalid \<Longrightarrow> \<exists>p. FromZeroable r zero a = Inl p"
  by (simp add: FromZeroable_def isZero_def Value_Interface_def Value_IsZero_def)

text \<open>
  The examples of the package's tests: the zero time, the zero instant in the zone
  XTC, which is zero by its method though not the zero value of the struct, and a
  time that is not zero; a nil pointer and a pointer to the second of them; the
  integers 0 and 7.
\<close>

lemma FromZeroable_examples:
  "FromZeroable reflect_Time z \<lparr>sec = 0, nsec = 0, loc = None\<rparr> = Inr (None_T z)"
  "FromZeroable reflect_Time z \<lparr>sec = 0, nsec = 0, loc = Some ''XTC''\<rparr> = Inr (None_T z)"
  "FromZeroable reflect_Time z \<lparr>sec = 3661, nsec = 0, loc = None\<rparr>
     = Inr (Some_T \<lparr>sec = 3661, nsec = 0, loc = None\<rparr>)"
  "FromZeroable reflect_ptr_Time None None = Inr (None_T None)"
  "FromZeroable reflect_ptr_Time None (Some \<lparr>sec = 0, nsec = 0, loc = Some ''XTC''\<rparr>)
     = Inr (None_T None)"
  "FromZeroable reflect_int 0 0 = Inr (None_T 0)"
  "FromZeroable reflect_int 0 7 = Inr (Some_T 7)"
  by (simp_all add: FromZeroable_def isZero_def Value_Interface_def Value_IsZero_def
      reflect_Time_def reflect_ptr_Time_def reflect_int_def Time_IsZero_def has_nil_def)

text \<open>
  Claim C6: \<open>FromZeroable\<close> returns the absent option exactly when the value is
  zero and \<open>Some_T\<close> of it otherwise, a nil reference being always zero. The code
  tests for nil only when the kind is \<open>Pointer\<close>. The nil value of the interface
  type \<^verbatim>\<open>error\<close> is a nil reference and the zero value of its type, and
  \<open>FromZeroable\<close> of it panics in \<^verbatim>\<open>rv.IsZero()\<close> instead of returning the
  absent option. A non-nil error is wrapped as the claim says.
\<close>

theorem FromZeroable_nil_error_panics:
  "FromZeroable reflect_error None None
     = Inl (Panic ''reflect: call of reflect.Value.IsZero on zero Value'')
   \<and> zero_by_spec reflect_error None
   \<and> FromZeroable reflect_error None (Some ''boom'') = Inr (Some_T (Some ''boom''))"
  by (simp add: FromZeroable_def isZero_def Value_IsZero_def reflect_error_def
      zero_by_spec_def nil_reference_def has_nil_def)

section \<open>The alias block\<close>

text \<open>
  Claim C7: every alias stands for \<open>T\<close> of the type it is named after. Six
  aliases of the block do not: \<open>Int8\<close>, \<open>Int16\<close>, \<open>Int32\<close> and \<open>Int64\<close> are
  declared as \<open>T\<close> of the unsigned type of that size, so that \<open>Int8\<close> cannot wrap
  -1 as \<^verbatim>\<open>T[int8]\<close> can, and \<open>Complex64\<close> and \<open>Complex128\<close> are declared as
  \<open>T\<close> of each other's type.
\<close>

theorem signed_aliases_wrap_unsigned:
  "map_of aliases ''Int8'' = Some go_uint8 \<and> named_after ''Int8'' = Some go_int8
   \<and> misnamed = [''Complex128'', ''Complex64'', ''Int8'', ''Int16'', ''Int32'', ''Int64'']
   \<and> holds go_int8 (- 1) \<and> \<not> holds go_uint8 (- 1)"
  by code_simp

section \<open>Scanning a column\<close>

text \<open>
  Claim C9. \<open>Scan\<close> hands the source to the \<open>Scan\<close> method of a zero
  \<^verbatim>\<open>sql.Null[V]\<close> and returns that method's error as it is, with the receiver set
  from the two fields of the struct. With the method of \<open>database/sql\<close> the option is
  present exactly when the source is not nil, its payload is the zero value for a nil
  source and the value converted from the source otherwise, and the error is the
  error of the conversion.
\<close>

theorem Scan_delegates:
  "Scan null_Scan zero t src =
     (\<lparr>v = V (fst (null_Scan \<lparr>V = zero, Valid = False\<rparr> src)),
       present = Valid (fst (null_Scan \<lparr>V = zero, Valid = False\<rparr> src))\<rparr>,
      snd (null_Scan \<lparr>V = zero, Valid = False\<rparr> src))
   \<and> present (fst (Scan (Null_Scan convertAssign zero) zero t col)) = (col \<noteq> None)
   \<and> v (fst (Scan (Null_Scan convertAssign zero) zero t col))
       = (case col of None \<Rightarrow> zero | Some x \<Rightarrow> fst (convertAssign zero x))
   \<and> snd (Scan (Null_Scan convertAssign zero) zero t col)
       = (case col of None \<Rightarrow> None | Some x \<Rightarrow> snd (convertAssign zero x))"
  by (cases col) (simp_all add: Scan_def Null_Scan_def split: prod.splits)

text \<open>
  Three scans into a \<^verbatim>\<open>T[bool]\<close> that holds \<^verbatim>\<open>Some(true)\<close>: of a NULL column, of
  the integer 0, and of the integer 2, which the conversion rejects. The error comes
  back as the conversion gave it, and the option is present then, since the method of
  \<open>database/sql\<close> sets \<open>Valid\<close> before it converts.
\<close>

lemma Scan_examples:
  "Scan (Null_Scan convertAssign_bool False) False (Some_T True) None = (None_T False, None)"
  "Scan (Null_Scan convertAssign_bool False) False (Some_T True) (Some 0) = (Some_T False, None)"
  "Scan (Null_Scan convertAssign_bool False) False (Some_T True) (Some 2)
     = (Some_T False, Some ''sql/driver: could not convert into type bool'')"
  by (simp_all add: Scan_def Null_Scan_def convertAssign_bool_def Some_T_def None_T_def
      zero_T_def)

end
